theory Spec2Isabelle
  imports Complex_Main "HOL-Library.Log_Nat" "HOL-Library.Multiset"
begin

section \<open>Python values used by the service\<close>

subsection \<open>Strings\<close>

text \<open>
  A Python \<open>str\<close> is modelled as a \<open>string\<close> whose characters are read as the code
  points 0 to 255; code points above 255 are outside the model. \<open>isspace\<close> is
  \<open>str.isspace\<close> on one character: the white space that \<open>str.strip()\<close> and
  \<open>str.split()\<close> (both called without arguments in the source) remove.
\<close>

definition isspace :: "char \<Rightarrow> bool" where
  "isspace c = (let n = (of_char c :: nat) in
     (9 \<le> n \<and> n \<le> 13) \<or> (28 \<le> n \<and> n \<le> 32) \<or> n = 133 \<or> n = 160)"

text \<open>\<open>str.strip()\<close>: leading and trailing white space removed.\<close>

definition str_strip :: "string \<Rightarrow> string" where
  "str_strip s = rev (dropWhile isspace (rev (dropWhile isspace s)))"

text \<open>
  \<open>str.lower()\<close>: the upper-case letters A to Z, and those of the range 192 to 222
  (without the multiplication sign 215), move up by 32; every other character of the
  modelled range is its own lower case.
\<close>

definition char_lower :: "char \<Rightarrow> char" where
  "char_lower c = (let n = (of_char c :: nat) in
     if (65 \<le> n \<and> n \<le> 90) \<or> (192 \<le> n \<and> n \<le> 222 \<and> n \<noteq> 215)
     then char_of (n + 32) else c)"

definition str_lower :: "string \<Rightarrow> string" where
  "str_lower s = map char_lower s"

text \<open>\<open>str.split()\<close>: the maximal runs of characters that are not white space.\<close>

function str_split :: "string \<Rightarrow> string list" where
  "str_split [] = []"
| "str_split (c # cs) =
     (if isspace c then str_split cs
      else (c # takeWhile (\<lambda>x. \<not> isspace x) cs)
             # str_split (dropWhile (\<lambda>x. \<not> isspace x) cs))"
  by pat_completeness auto
termination
  by (relation "measure length") (auto simp: less_Suc_eq_le length_dropWhile_le)

text \<open>\<open>str_contains sub s\<close> is Python's \<open>sub in s\<close> on strings.\<close>

fun str_contains :: "string \<Rightarrow> string \<Rightarrow> bool" where
  "str_contains sub [] = (sub = [])"
| "str_contains sub (c # cs) = (take (length sub) (c # cs) = sub \<or> str_contains sub cs)"

text \<open>Truth value of an \<open>Optional[str]\<close>: \<open>None\<close> and the empty string are false.\<close>

fun truthy :: "string option \<Rightarrow> bool" where
  "truthy None = False"
| "truthy (Some s) = (s \<noteq> [])"

subsection \<open>Floats\<close>

text \<open>
  A Python \<open>float\<close> is an IEEE 754 binary64 number. A finite one is modelled by its
  exact rational value (the two zeros are one value, as under Python's \<open>==\<close>); every
  operation computes the exact rational result and rounds it to the nearest binary64
  number, ties to the even significand, as the hardware does.
\<close>

datatype pyfloat = Finite rat | PosInf | NegInf | NaN

definition round_half_even :: "rat \<Rightarrow> int" where
  "round_half_even q = (let f = \<lfloor>q\<rfloor>; d = q - of_int f in
     if d < 1 / 2 then f else if 1 / 2 < d then f + 1 else if even f then f else f + 1)"

definition pow2 :: "int \<Rightarrow> rat" where
  "pow2 e = (if 0 \<le> e then 2 ^ nat e else 1 / 2 ^ nat (- e))"

text \<open>\<open>ilog2 q\<close> is the binary exponent of a positive rational: \<open>2 ^ ilog2 q \<le> q < 2 ^ (ilog2 q + 1)\<close>.\<close>

definition ilog2 :: "rat \<Rightarrow> int" where
  "ilog2 q = (case quotient_of q of (a, b) \<Rightarrow>
     let d = bitlen a - bitlen b in if pow2 d \<le> q then d else d - 1)"

text \<open>
  Rounding to binary64: 53 significant bits, exponents from -1022 (below that the
  subnormal spacing \<open>2 ^ -1074\<close>) to 1023 (above that an infinity).
\<close>

definition to_double :: "rat \<Rightarrow> pyfloat" where
  "to_double q =
     (if q = 0 then Finite 0
      else let e = max (ilog2 \<bar>q\<bar>) (- 1022);
               u = pow2 (e - 52);
               n = round_half_even (q / u)
           in if 1023 < e \<or> (e = 1023 \<and> 2 ^ 53 \<le> \<bar>n\<bar>)
              then (if 0 < q then PosInf else NegInf)
              else Finite (of_int n * u))"

text \<open>A decimal float literal of the source denotes the nearest binary64 number.\<close>

definition py_float :: "rat \<Rightarrow> pyfloat" where
  "py_float q = to_double q"

text \<open>
  An \<open>int\<close> operand of a float operation is converted first. (Python raises
  OverflowError for an \<open>int\<close> beyond the float range; the source converts only the
  literal 2 and a loop index below 10.)
\<close>

definition float_of_int :: "int \<Rightarrow> pyfloat" where
  "float_of_int i = to_double (of_int i)"

fun float_add :: "pyfloat \<Rightarrow> pyfloat \<Rightarrow> pyfloat" where
  "float_add (Finite a) (Finite b) = to_double (a + b)"
| "float_add NaN _ = NaN"
| "float_add _ NaN = NaN"
| "float_add PosInf NegInf = NaN"
| "float_add NegInf PosInf = NaN"
| "float_add PosInf _ = PosInf"
| "float_add NegInf _ = NegInf"
| "float_add _ PosInf = PosInf"
| "float_add _ NegInf = NegInf"

fun float_sign :: "pyfloat \<Rightarrow> int" where
  "float_sign (Finite a) = (if a < 0 then - 1 else if 0 < a then 1 else 0)"
| "float_sign PosInf = 1"
| "float_sign NegInf = - 1"
| "float_sign NaN = 0"

fun float_mul :: "pyfloat \<Rightarrow> pyfloat \<Rightarrow> pyfloat" where
  "float_mul (Finite a) (Finite b) = to_double (a * b)"
| "float_mul NaN _ = NaN"
| "float_mul _ NaN = NaN"
| "float_mul x y =
     (if float_sign x * float_sign y = 0 then NaN
      else if 0 < float_sign x * float_sign y then PosInf else NegInf)"

text \<open>
  True division. Python raises ZeroDivisionError for a zero divisor; the source divides
  by the literals 2 and 0.02 only, so that case does not arise, and the model marks it
  with \<open>NaN\<close>.
\<close>

fun float_truediv :: "pyfloat \<Rightarrow> pyfloat \<Rightarrow> pyfloat" where
  "float_truediv (Finite a) (Finite b) = (if b = 0 then NaN else to_double (a / b))"
| "float_truediv NaN _ = NaN"
| "float_truediv _ NaN = NaN"
| "float_truediv (Finite a) _ = Finite 0"
| "float_truediv x (Finite b) =
     (if b = 0 then NaN
      else if 0 < float_sign x * float_sign (Finite b) then PosInf else NegInf)"
| "float_truediv _ _ = NaN"

text \<open>
  \<open>round(x, n)\<close> for a float and \<open>n \<ge> 0\<close>: the exact value of \<open>x\<close> is rounded to
  \<open>n\<close> decimals, ties to the even digit, and the decimal result is converted back to
  the nearest float. Infinities and NaN are returned as they are.
\<close>

fun py_round :: "pyfloat \<Rightarrow> nat \<Rightarrow> pyfloat" where
  "py_round (Finite q) n = to_double (of_int (round_half_even (q * 10 ^ n)) / 10 ^ n)"
| "py_round x n = x"

subsection \<open>Exceptions\<close>

text \<open>
  \<open>HTTPException status detail\<close> is FastAPI's exception, which the framework turns
  into a response with that status code and detail; it is a subclass of Python's
  \<open>Exception\<close>. \<open>OtherException\<close> stands for every other subclass of \<open>Exception\<close>.
  The text \<open>str(e)\<close> of an exception is produced by library code; the model takes it
  as the parameter \<open>exc_str\<close>.
\<close>

datatype exn = HTTPException int string | OtherException string

section \<open>Data model\<close>

text \<open>
  The keyword dictionaries built by the keyword service (keys \<open>keyword\<close>,
  \<open>search_volume\<close>, \<open>competition\<close>, \<open>cpc_low\<close>, \<open>cpc_high\<close>). The competition level
  is the string the source stores and compares.
\<close>

record keyword_record =
  keyword :: string
  search_volume :: int
  competition :: string
  cpc_low :: pyfloat
  cpc_high :: pyfloat

text \<open>The dictionary of the five ad groups, one list of keyword records each.\<close>

record ad_groups_dict =
  brand_terms :: "keyword_record list"
  category_terms :: "keyword_record list"
  competitor_terms :: "keyword_record list"
  location_terms :: "keyword_record list"
  long_tail_terms :: "keyword_record list"

text \<open>
  The dictionary \<open>discover_keywords\<close> returns when no step raises (its key
  \<open>keywords\<close> is \<open>keyword_records\<close> here).
\<close>

record discovery =
  total_keywords :: nat
  keyword_records :: "keyword_record list"
  ad_groups :: ad_groups_dict
  seed_keywords_used :: "string list"

text \<open>The request body of the endpoint (class \<open>SEMAnalysisRequest\<close>).\<close>

record sem_analysis_request =
  brand_website :: string
  competitor_website :: "string option"
  service_locations :: "string option"
  shopping_budget :: int
  search_budget :: int
  pmax_budget :: int

text \<open>
  The dictionaries of \<open>calculate_campaign_suggestions\<close>. A theme entry has the keys
  \<open>theme\<close>, \<open>keywords\<close> (a count, here \<open>theme_keywords\<close>) and \<open>estimated_reach\<close>; the
  keys of the budget allocation carry the prefix \<open>alloc_\<close> here, the request having
  fields of the same names.
\<close>

record theme_dict =
  theme :: string
  theme_keywords :: nat
  estimated_reach :: int

record themes_dict =
  product_category_themes :: "theme_dict list"
  use_case_themes :: "theme_dict list"
  demographic_themes :: "theme_dict list"
  seasonal_themes :: "theme_dict list"

record budget_allocation_dict =
  alloc_shopping_budget :: int
  alloc_search_budget :: int
  alloc_pmax_budget :: int
  alloc_total_budget :: int

record campaign_suggestions_dict =
  performance_max_themes :: themes_dict
  budget_allocation :: budget_allocation_dict

text \<open>
  One entry of the dictionary of \<open>calculate_cpc_recommendations\<close> (its key
  \<open>competition\<close> is \<open>rec_competition\<close> here).
\<close>

record cpc_recommendation =
  suggested_cpc :: pyfloat
  target_cpa :: pyfloat
  rec_competition :: string
  priority :: string

text \<open>
  The body of a 200 response: the four entries of the discovery and the two computed
  dictionaries. The recommendations are keyed by keyword text.
\<close>

record response = discovery +
  campaign_suggestions :: campaign_suggestions_dict
  cpc_recommendations :: "string \<rightharpoonup> cpc_recommendation"

section \<open>Keyword service (keyword_service.py)\<close>

subsection \<open>extract_seed_keywords\<close>

text \<open>
  The \<open>try\<close> block of \<open>extract_seed_keywords\<close> fetches and parses a page with
  library code. Its outcome is an input of the model: \<open>scrape url\<close> is \<open>Inl e\<close> when a
  statement of the block raises \<open>e\<close>, and \<open>Inr keywords\<close> with the value of the
  variable \<open>keywords\<close> otherwise. The function returns \<open>keywords[:10]\<close>, and in the
  \<open>except Exception\<close> branch the fixed list.
\<close>

definition fallback_seeds :: "string list" where
  "fallback_seeds =
     [''digital marketing'', ''online services'', ''web solutions'', ''business consulting'']"

definition extract_seed_keywords :: "(string \<Rightarrow> exn + string list) \<Rightarrow> string \<Rightarrow> string list" where
  "extract_seed_keywords scrape website_url =
     (case scrape website_url of
        Inr keywords \<Rightarrow> take 10 keywords
      | Inl e \<Rightarrow> fallback_seeds)"

subsection \<open>get_keyword_ideas_from_google\<close>

definition base_volumes :: "int list" where
  "base_volumes = [1000, 2500, 5000, 1200, 800, 3200, 4500, 600, 1800, 2200]"

definition competitions :: "string list" where
  "competitions = [''LOW'', ''MEDIUM'', ''HIGH'']"

definition suffixes :: "string list" where
  "suffixes = ['''', '' online'', '' shop'', '' buy'', '' best'', '' reviews'']"

text \<open>The dictionary appended for seed number \<open>i\<close> and one suffix.\<close>

definition mock_keyword :: "nat \<Rightarrow> string \<Rightarrow> string \<Rightarrow> keyword_record" where
  "mock_keyword i seed suffix =
     \<lparr>keyword = str_strip (seed @ suffix),
      search_volume = base_volumes ! (i mod length base_volumes) + int i * 100,
      competition = competitions ! (i mod length competitions),
      cpc_low =
        py_round (float_add (py_float (5 / 10))
                            (float_mul (float_of_int (int i)) (py_float (3 / 10)))) 2,
      cpc_high =
        py_round (float_add (py_float (12 / 10))
                            (float_mul (float_of_int (int i)) (py_float (4 / 10)))) 2\<rparr>"

text \<open>
  The two nested loops, each iteration appending to \<open>mock_keywords\<close>. (The handlers of
  the function guard the disabled call of the real service; nothing in the mock path
  raises.)
\<close>

definition get_keyword_ideas_from_google :: "string list \<Rightarrow> keyword_record list" where
  "get_keyword_ideas_from_google seed_keywords =
     fold (\<lambda>(i, seed) mock_keywords.
             fold (\<lambda>suffix mock_keywords. mock_keywords @ [mock_keyword i seed suffix])
                  suffixes mock_keywords)
          (enumerate 0 (take 10 seed_keywords)) []"

subsection \<open>group_keywords_into_ad_groups\<close>

definition empty_ad_groups :: ad_groups_dict where
  "empty_ad_groups =
     \<lparr>brand_terms = [], category_terms = [], competitor_terms = [],
      location_terms = [], long_tail_terms = []\<rparr>"

text \<open>One iteration of the loop: the \<open>if\<close>/\<open>elif\<close> chain on the lower-cased text.\<close>

definition group_keyword :: "keyword_record \<Rightarrow> ad_groups_dict \<Rightarrow> ad_groups_dict" where
  "group_keyword kw groups =
     (let kw_text = str_lower (keyword kw) in
      if 3 \<le> length (str_split kw_text)
      then groups\<lparr>long_tail_terms := long_tail_terms groups @ [kw]\<rparr>
      else if list_ex (\<lambda>comp. str_contains comp kw_text)
                [''vs'', ''versus'', ''compared'', ''alternative'']
      then groups\<lparr>competitor_terms := competitor_terms groups @ [kw]\<rparr>
      else if list_ex (\<lambda>loc. str_contains loc kw_text)
                [''near me'', ''local'', ''city'', ''area'']
      then groups\<lparr>location_terms := location_terms groups @ [kw]\<rparr>
      else if competition kw = ''HIGH''
      then groups\<lparr>brand_terms := brand_terms groups @ [kw]\<rparr>
      else groups\<lparr>category_terms := category_terms groups @ [kw]\<rparr>)"

definition group_keywords_into_ad_groups :: "keyword_record list \<Rightarrow> ad_groups_dict" where
  "group_keywords_into_ad_groups kws = fold group_keyword kws empty_ad_groups"

subsection \<open>discover_keywords\<close>

text \<open>
  \<open>discover_keywords\<close> awaits two methods of the service object. The model takes them
  as parameters, each returning \<open>Inl e\<close> when the call raises \<open>e\<close>:
  \<open>extract\<close> for \<open>self.extract_seed_keywords\<close> and \<open>ideas\<close> for
  \<open>self.get_keyword_ideas_from_google\<close>. \<open>discover_keywords_try\<close> is the \<open>try\<close>
  block; the \<open>except Exception\<close> branch returns the dictionary with the single key
  \<open>error\<close>, modelled as \<open>Inl\<close> of the message. (\<open>brand_url\<close> and
  \<open>competitor_url\<close> are the arguments \<open>brand_website\<close> and
  \<open>competitor_website\<close>.)
\<close>

definition discover_keywords_try ::
  "(string \<Rightarrow> exn + string list) \<Rightarrow> (string list \<Rightarrow> exn + keyword_record list) \<Rightarrow>
   string \<Rightarrow> string option \<Rightarrow> exn + discovery" where
  "discover_keywords_try extract ideas brand_url competitor_url =
     (case extract brand_url of
        Inl e \<Rightarrow> Inl e
      | Inr brand_seeds \<Rightarrow>
          (case (if truthy competitor_url
                 then (case extract (the competitor_url) of
                         Inl e \<Rightarrow> Inl e
                       | Inr comp_seeds \<Rightarrow> Inr (brand_seeds @ comp_seeds))
                 else Inr brand_seeds) of
             Inl e \<Rightarrow> Inl e
           | Inr seed_keywords \<Rightarrow>
               (case ideas seed_keywords of
                  Inl e \<Rightarrow> Inl e
                | Inr keyword_ideas \<Rightarrow>
                    (let filtered_keywords = filter (\<lambda>kw. 500 \<le> search_volume kw) keyword_ideas;
                         groups = group_keywords_into_ad_groups filtered_keywords
                     in Inr \<lparr>total_keywords = length filtered_keywords,
                             keyword_records = filtered_keywords,
                             ad_groups = groups,
                             seed_keywords_used = seed_keywords\<rparr>))))"

definition discover_keywords ::
  "(exn \<Rightarrow> string) \<Rightarrow> (string \<Rightarrow> exn + string list) \<Rightarrow>
   (string list \<Rightarrow> exn + keyword_record list) \<Rightarrow>
   string \<Rightarrow> string option \<Rightarrow> string + discovery" where
  "discover_keywords exc_str extract ideas brand_url competitor_url =
     (case discover_keywords_try extract ideas brand_url competitor_url of
        Inl e \<Rightarrow> Inl (exc_str e)
      | Inr keyword_data \<Rightarrow> Inr keyword_data)"

text \<open>
  The service object as the source defines it: both methods are the ones above, and
  neither raises.
\<close>

definition service_discover_keywords ::
  "(exn \<Rightarrow> string) \<Rightarrow> (string \<Rightarrow> exn + string list) \<Rightarrow>
   string \<Rightarrow> string option \<Rightarrow> string + discovery" where
  "service_discover_keywords exc_str scrape =
     discover_keywords exc_str
       (\<lambda>website_url. Inr (extract_seed_keywords scrape website_url))
       (\<lambda>seed_keywords. Inr (get_keyword_ideas_from_google seed_keywords))"

section \<open>Endpoint and calculators (main.py)\<close>

subsection \<open>calculate_campaign_suggestions\<close>

definition calculate_campaign_suggestions ::
  "discovery \<Rightarrow> int \<Rightarrow> int \<Rightarrow> int \<Rightarrow> campaign_suggestions_dict" where
  "calculate_campaign_suggestions keyword_data shopping search pmax =
     (let all_keywords = keyword_records keyword_data;
          product_keywords = filter (\<lambda>kw. 5000 < search_volume kw) all_keywords;
          long_tail = long_tail_terms (ad_groups keyword_data);
          location_based = location_terms (ad_groups keyword_data)
      in \<lparr>performance_max_themes =
            \<lparr>product_category_themes =
               [\<lparr>theme = ''High Volume Products'',
                 theme_keywords = length product_keywords,
                 estimated_reach = sum_list (map search_volume product_keywords)\<rparr>],
             use_case_themes =
               [\<lparr>theme = ''Detailed Solutions'',
                 theme_keywords = length long_tail,
                 estimated_reach = sum_list (map search_volume long_tail)\<rparr>],
             demographic_themes =
               [\<lparr>theme = ''Location-Based Services'',
                 theme_keywords = length location_based,
                 estimated_reach = sum_list (map search_volume location_based)\<rparr>],
             seasonal_themes = []\<rparr>,
          budget_allocation =
            \<lparr>alloc_shopping_budget = shopping,
             alloc_search_budget = search,
             alloc_pmax_budget = pmax,
             alloc_total_budget = shopping + search + pmax\<rparr>\<rparr>)"

subsection \<open>calculate_cpc_recommendations\<close>

definition conversion_rate :: pyfloat where
  "conversion_rate = py_float (2 / 100)"

text \<open>
  The entry the loop body builds for one keyword record: \<open>avg_cpc\<close> and the
  target cost are computed in float arithmetic and rounded when stored.
\<close>

definition keyword_recommendation :: "keyword_record \<Rightarrow> cpc_recommendation" where
  "keyword_recommendation kw =
     (let avg_cpc = float_truediv (float_add (cpc_low kw) (cpc_high kw)) (float_of_int 2);
          cpa = float_truediv avg_cpc conversion_rate
      in \<lparr>suggested_cpc = py_round avg_cpc 2,
          target_cpa = py_round cpa 2,
          rec_competition = competition kw,
          priority = (if 10000 < search_volume kw \<and> competition kw = ''MEDIUM''
                      then ''HIGH'' else ''MEDIUM'')\<rparr>)"

text \<open>
  The loop: each entry is stored under the keyword text, replacing an entry already
  there. The argument \<open>total_budget\<close> is not read.
\<close>

definition calculate_cpc_recommendations ::
  "keyword_record list \<Rightarrow> int \<Rightarrow> (string \<rightharpoonup> cpc_recommendation)" where
  "calculate_cpc_recommendations kws total_budget =
     fold (\<lambda>kw recommendations. recommendations(keyword kw \<mapsto> keyword_recommendation kw))
          kws Map.empty"

subsection \<open>analyze_sem_campaign\<close>

text \<open>
  The handler of \<open>POST /analyze-sem-campaign\<close>. \<open>discover\<close> is the method
  \<open>keyword_service.discover_keywords\<close>, applied to the two websites of the request.
  The result \<open>Inr body\<close> is the response with status 200, \<open>Inl (HTTPException status
  detail)\<close> the error response with that status. \<open>analyze_sem_campaign_try\<close> is the
  \<open>try\<close> block, whose \<open>raise HTTPException(status_code=400, ...)\<close> is the only
  statement of the model that raises; \<open>analyze_sem_campaign\<close> adds the handler
  \<open>except Exception\<close>, which catches every \<open>exn\<close>. (The list \<open>locations\<close> that the
  block parses from \<open>service_locations\<close> is not used afterwards.)
\<close>

definition analyze_sem_campaign_try ::
  "(string \<Rightarrow> string option \<Rightarrow> string + discovery) \<Rightarrow> sem_analysis_request \<Rightarrow> exn + response" where
  "analyze_sem_campaign_try discover request =
     (case discover (brand_website request) (competitor_website request) of
        Inl err \<Rightarrow> Inl (HTTPException 400 err)
      | Inr keyword_data \<Rightarrow>
          (let suggestions =
                 calculate_campaign_suggestions keyword_data
                   (shopping_budget request) (search_budget request) (pmax_budget request);
               recommendations =
                 calculate_cpc_recommendations (keyword_records keyword_data)
                   (shopping_budget request + search_budget request + pmax_budget request)
           in Inr \<lparr>total_keywords = total_keywords keyword_data,
                   keyword_records = keyword_records keyword_data,
                   ad_groups = ad_groups keyword_data,
                   seed_keywords_used = seed_keywords_used keyword_data,
                   campaign_suggestions = suggestions,
                   cpc_recommendations = recommendations\<rparr>))"

definition analyze_sem_campaign ::
  "(exn \<Rightarrow> string) \<Rightarrow> (string \<Rightarrow> string option \<Rightarrow> string + discovery) \<Rightarrow>
   sem_analysis_request \<Rightarrow> exn + response" where
  "analyze_sem_campaign exc_str discover request =
     (case analyze_sem_campaign_try discover request of
        Inl e \<Rightarrow> Inl (HTTPException 500 (exc_str e))
      | Inr body \<Rightarrow> Inr body)"

text \<open>The endpoint of the running service: the handler on the service object.\<close>

definition service_analyze_sem_campaign ::
  "(exn \<Rightarrow> string) \<Rightarrow> (string \<Rightarrow> exn + string list) \<Rightarrow> sem_analysis_request \<Rightarrow> exn + response" where
  "service_analyze_sem_campaign exc_str scrape request =
     analyze_sem_campaign exc_str (service_discover_keywords exc_str scrape) request"

section \<open>The bucket priority as the specification words it\<close>

text \<open>
  The first-match priority of the specification, on the lower-cased keyword text:
  three or more words, then a comparison token, then a locality token, then
  competition \<open>HIGH\<close>, else the category bucket.
\<close>

datatype ad_group = BrandTerms | CategoryTerms | CompetitorTerms | LocationTerms | LongTailTerms

definition spec_word_count :: "keyword_record \<Rightarrow> nat" where
  "spec_word_count kw = length (str_split (str_lower (keyword kw)))"

definition spec_has_token :: "string list \<Rightarrow> keyword_record \<Rightarrow> bool" where
  "spec_has_token tokens kw = list_ex (\<lambda>t. str_contains t (str_lower (keyword kw))) tokens"

definition spec_bucket :: "keyword_record \<Rightarrow> ad_group" where
  "spec_bucket kw =
     (if 3 \<le> spec_word_count kw then LongTailTerms
      else if spec_has_token [''vs'', ''versus'', ''compared'', ''alternative''] kw
      then CompetitorTerms
      else if spec_has_token [''near me'', ''local'', ''city'', ''area''] kw
      then LocationTerms
      else if competition kw = ''HIGH'' then BrandTerms
      else CategoryTerms)"

text \<open>The bucket list of a label.\<close>

fun bucket_of :: "ad_group \<Rightarrow> ad_groups_dict \<Rightarrow> keyword_record list" where
  "bucket_of BrandTerms g = brand_terms g"
| "bucket_of CategoryTerms g = category_terms g"
| "bucket_of CompetitorTerms g = competitor_terms g"
| "bucket_of LocationTerms g = location_terms g"
| "bucket_of LongTailTerms g = long_tail_terms g"

section \<open>Auxiliary definitions and concrete inputs\<close>

text \<open>
  The seed list of the service: the seeds of the brand website, followed by those of
  the competitor website when one is given.
\<close>

definition service_seeds ::
  "(string \<Rightarrow> exn + string list) \<Rightarrow> string \<Rightarrow> string option \<Rightarrow> string list" where
  "service_seeds scrape brand_url competitor_url =
     extract_seed_keywords scrape brand_url
     @ (if truthy competitor_url then extract_seed_keywords scrape (the competitor_url) else [])"

text \<open>
  A rendering of exceptions for the concrete evaluations: Starlette prints an
  \<open>HTTPException\<close> as status code, colon, detail; any other exception stands for its
  own text.
\<close>

function str_nat :: "nat \<Rightarrow> string" where
  "str_nat n = (if n < 10 then [char_of (48 + n)] else str_nat (n div 10) @ [char_of (48 + n mod 10)])"
  by pat_completeness auto
termination
  by (relation "measure id") auto

definition str_int :: "int \<Rightarrow> string" where
  "str_int i = (if i < 0 then CHR ''-'' # str_nat (nat (- i)) else str_nat (nat i))"

fun starlette_str :: "exn \<Rightarrow> string" where
  "starlette_str (HTTPException status detail) = str_int status @ '': '' @ detail"
| "starlette_str (OtherException message) = message"

text \<open>A site that cannot be fetched, and a keyword provider that raises.\<close>

definition unreachable_site :: "string \<Rightarrow> exn + string list" where
  "unreachable_site website_url = Inl (OtherException ''Failed to resolve host'')"



definition brand_only_request :: sem_analysis_request where
  "brand_only_request =
     \<lparr>brand_website = ''https://brand.invalid'', competitor_website = None,
      service_locations = None,
      shopping_budget = 100, search_budget = 200, pmax_budget = 300\<rparr>"

definition two_sites_request :: sem_analysis_request where
  "two_sites_request =
     \<lparr>brand_website = ''https://brand.invalid'',
      competitor_website = Some ''https://competitor.invalid'',
      service_locations = None,
      shopping_budget = 100, search_budget = 200, pmax_budget = 300\<rparr>"

text \<open>A provider whose list has volumes on both sides of the threshold.\<close>

definition sample_extract :: "string \<Rightarrow> exn + string list" where
  "sample_extract website_url = Inr [''shoes'']"

definition sample_ideas_list :: "keyword_record list" where
  "sample_ideas_list =
     [\<lparr>keyword = ''shoes'', search_volume = 499, competition = ''LOW'',
       cpc_low = Finite (1 / 2), cpc_high = Finite 1\<rparr>,
      \<lparr>keyword = ''shoes online'', search_volume = 500, competition = ''MEDIUM'',
       cpc_low = Finite (1 / 2), cpc_high = Finite 1\<rparr>,
      \<lparr>keyword = ''shoes shop'', search_volume = 0, competition = ''HIGH'',
       cpc_low = Finite (1 / 2), cpc_high = Finite 1\<rparr>,
      \<lparr>keyword = ''shoes buy'', search_volume = 12000, competition = ''MEDIUM'',
       cpc_low = Finite (1 / 2), cpc_high = Finite 1\<rparr>]"

definition sample_ideas :: "string list \<Rightarrow> exn + keyword_record list" where
  "sample_ideas seed_keywords = Inr sample_ideas_list"

definition sample_discovery :: discovery where
  "sample_discovery =
     \<lparr>total_keywords = 2,
      keyword_records = filter (\<lambda>kw. 500 \<le> search_volume kw) sample_ideas_list,
      ad_groups =
        group_keywords_into_ad_groups (filter (\<lambda>kw. 500 \<le> search_volume kw) sample_ideas_list),
      seed_keywords_used = [''shoes'']\<rparr>"

text \<open>Keyword records for the evaluations of bucketing and of the recommendations.\<close>

definition sample_record :: "string \<Rightarrow> int \<Rightarrow> string \<Rightarrow> keyword_record" where
  "sample_record text volume level =
     \<lparr>keyword = text, search_volume = volume, competition = level,
      cpc_low = Finite (1 / 2), cpc_high = Finite 1\<rparr>"

definition bucket_samples :: "keyword_record list" where
  "bucket_samples =
     [sample_record ''Best Running Shoes'' 900 ''HIGH'',
      sample_record ''dvs shoes'' 900 ''HIGH'',
      sample_record ''capacity planning'' 900 ''HIGH'',
      sample_record ''running shoes'' 900 ''HIGH'',
      sample_record ''running shoes'' 900 ''LOW'']"

text \<open>
  Two records with one keyword text: those the mock generator builds for the seed
  \<open>digital marketing\<close> at positions 0 and 4 of a seed list.
\<close>

definition first_marketing :: keyword_record where
  "first_marketing =
     \<lparr>keyword = ''digital marketing'', search_volume = 1000, competition = ''LOW'',
      cpc_low = py_float (5 / 10), cpc_high = py_float (12 / 10)\<rparr>"

definition second_marketing :: keyword_record where
  "second_marketing =
     \<lparr>keyword = ''digital marketing'', search_volume = 1200, competition = ''MEDIUM'',
      cpc_low = py_float (17 / 10), cpc_high = py_float (28 / 10)\<rparr>"

definition penny_record :: keyword_record where
  "penny_record =
     \<lparr>keyword = ''penny'', search_volume = 700, competition = ''LOW'',
      cpc_low = py_float (1 / 100), cpc_high = py_float (2 / 100)\<rparr>"

section \<open>Properties of the string and float primitives\<close>

text \<open>\<open>str_contains\<close> is the substring test.\<close>

lemma str_contains_iff: "str_contains sub s \<longleftrightarrow> (\<exists>ps ss. s = ps @ sub @ ss)"
proof (induction s)
  case Nil
  then show ?case by auto
next
  case (Cons c cs)
  have "take (length sub) (c # cs) = sub \<longleftrightarrow> (\<exists>ss. c # cs = sub @ ss)"
    by (metis append_eq_conv_conj append_take_drop_id)
  moreover have "(\<exists>ps ss. c # cs = ps @ sub @ ss) \<longleftrightarrow>
      (\<exists>ss. c # cs = sub @ ss) \<or> (\<exists>ps ss. cs = ps @ sub @ ss)"
  proof
    assume "\<exists>ps ss. c # cs = ps @ sub @ ss"
    then obtain ps ss where e: "c # cs = ps @ sub @ ss" by blast
    show "(\<exists>ss. c # cs = sub @ ss) \<or> (\<exists>ps ss. cs = ps @ sub @ ss)"
    proof (cases ps)
      case Nil
      with e show ?thesis by auto
    next
      case (Cons p ps')
      with e have "cs = ps' @ sub @ ss" by simp
      then show ?thesis by blast
    qed
  next
    assume "(\<exists>ss. c # cs = sub @ ss) \<or> (\<exists>ps ss. cs = ps @ sub @ ss)"
    then show "\<exists>ps ss. c # cs = ps @ sub @ ss"
    proof
      assume "\<exists>ss. c # cs = sub @ ss"
      then show ?thesis by (metis append_Nil)
    next
      assume "\<exists>ps ss. cs = ps @ sub @ ss"
      then obtain ps ss where "cs = ps @ sub @ ss" by blast
      then have "c # cs = (c # ps) @ sub @ ss" by simp
      then show ?thesis by blast
    qed
  qed
  ultimately show ?case using Cons.IH by simp
qed

text \<open>The words of \<open>str_split\<close> are not empty and hold no white space.\<close>

lemma str_split_words:
  "w \<in> set (str_split s) \<Longrightarrow> w \<noteq> [] \<and> (\<forall>c\<in>set w. \<not> isspace c)"
proof (induction s arbitrary: w rule: str_split.induct)
  case 1
  then show ?case by simp
next
  case (2 c cs)
  show ?case
  proof (cases "isspace c")
    case True
    then have "w \<in> set (str_split cs)" using "2.prems" by simp
    then show ?thesis using "2.IH"(1) [OF True] by blast
  next
    case False
    then have "w = c # takeWhile (\<lambda>x. \<not> isspace x) cs
        \<or> w \<in> set (str_split (dropWhile (\<lambda>x. \<not> isspace x) cs))"
      using "2.prems" by simp
    then show ?thesis
    proof
      assume e: "w = c # takeWhile (\<lambda>x. \<not> isspace x) cs"
      have "\<forall>x\<in>set (takeWhile (\<lambda>x. \<not> isspace x) cs). \<not> isspace x"
        by (auto dest: set_takeWhileD)
      with e False show ?thesis by simp
    next
      assume "w \<in> set (str_split (dropWhile (\<lambda>x. \<not> isspace x) cs))"
      then show ?thesis using "2.IH"(2) [OF False] by blast
    qed
  qed
qed

text \<open>
  \<open>ilog2\<close> is the binary exponent of a positive rational, and a finite result of
  \<open>to_double\<close> is a binary64 number (a significand of at most 53 bits at an exponent
  of the binary64 range) at most half a unit in the last place away from the exact
  value.
\<close>

lemma pow2_power_int: "pow2 e = power_int 2 e"
  by (simp add: pow2_def power_int_def inverse_eq_divide power_one_over)

lemma of_int_bitlen_bounds:
  assumes "0 < a"
  shows "power_int 2 (bitlen a - 1) \<le> (of_int a :: rat) \<and> (of_int a :: rat) < power_int 2 (bitlen a)"
proof -
  from bitlen_bounds [OF assms]
  have l: "2 ^ nat (bitlen a - 1) \<le> a" and u: "a < 2 ^ nat (bitlen a)" by auto
  have k: "1 \<le> bitlen a"
  proof (rule ccontr)
    assume "\<not> 1 \<le> bitlen a"
    then have "nat (bitlen a) = 0" by simp
    with u have "a < 1" by simp
    with assms show False by simp
  qed
  from l have "(of_int (2 ^ nat (bitlen a - 1)) :: rat) \<le> of_int a"
    by (simp only: of_int_le_iff)
  then have l': "power_int 2 (bitlen a - 1) \<le> (of_int a :: rat)"
    using k by (simp add: power_int_def)
  from u have "(of_int a :: rat) < of_int (2 ^ nat (bitlen a))"
    by (simp only: of_int_less_iff)
  then have u': "(of_int a :: rat) < power_int 2 (bitlen a)"
    using k by (simp add: power_int_def)
  from l' u' show ?thesis by blast
qed

lemma ilog2_bounds:
  assumes "0 < q"
  shows "pow2 (ilog2 q) \<le> q \<and> q < pow2 (ilog2 q + 1)"
proof -
  obtain a b where ab: "quotient_of q = (a, b)" by (cases "quotient_of q")
  have b: "0 < b" using ab by (rule quotient_of_denom_pos)
  have q: "q = of_int a / of_int b" using ab by (rule quotient_of_div)
  have a: "0 < a" using assms b q by (simp add: zero_less_divide_iff)
  let ?ka = "bitlen a" and ?kb = "bitlen b"
  note A = of_int_bitlen_bounds [OF a] and B = of_int_bitlen_bounds [OF b]
  have pa: "(0::rat) < of_int a" and pb: "(0::rat) < of_int b" using a b by simp_all
  have "of_int a / of_int b < (power_int 2 ?ka :: rat) / power_int 2 (?kb - 1)"
    using A B pa by (intro frac_less) auto
  also have "(power_int 2 ?ka :: rat) / power_int 2 (?kb - 1) = power_int 2 (?ka - (?kb - 1))"
    by (simp add: power_int_diff)
  finally have upper: "q < power_int 2 (?ka - ?kb + 1)"
    unfolding q by (simp add: algebra_simps)
  have "(power_int 2 (?ka - 1) :: rat) / power_int 2 ?kb < of_int a / of_int b"
    using A B pb by (intro frac_less2) auto
  moreover have "(power_int 2 (?ka - 1) :: rat) / power_int 2 ?kb = power_int 2 (?ka - 1 - ?kb)"
    by (simp add: power_int_diff)
  ultimately have lower: "power_int 2 (?ka - ?kb - 1) < q"
    unfolding q by (simp add: algebra_simps)
  show ?thesis
  proof (cases "pow2 (?ka - ?kb) \<le> q")
    case True
    then have "ilog2 q = ?ka - ?kb" by (simp add: ilog2_def ab Let_def)
    with True upper show ?thesis by (simp add: pow2_power_int)
  next
    case False
    then have e: "ilog2 q = ?ka - ?kb - 1" by (simp add: ilog2_def ab Let_def)
    from False have "q < power_int 2 (?ka - ?kb)" by (simp add: pow2_power_int)
    with lower e show ?thesis by (simp add: pow2_power_int)
  qed
qed

lemma round_half_even_close: "\<bar>of_int (round_half_even x) - x\<bar> \<le> 1 / 2"
proof -
  have "of_int \<lfloor>x\<rfloor> \<le> x" and "x < of_int \<lfloor>x\<rfloor> + 1" by linarith+
  then show ?thesis
    by (auto simp: round_half_even_def Let_def abs_le_iff)
qed

lemma pow2_pos: "0 < pow2 e"
  by (simp add: pow2_power_int)

lemma pow2_mono: "a \<le> b \<Longrightarrow> pow2 a \<le> pow2 b"
  by (simp add: pow2_power_int power_int_increasing)

lemma pow2_add_53: "pow2 (e + 1) / pow2 (e - 52) = 2 ^ 53"
proof -
  have "pow2 (e + 1) / pow2 (e - 52) = (power_int 2 ((e + 1) - (e - 52)) :: rat)"
    unfolding pow2_power_int by (subst power_int_diff) simp_all
  then show ?thesis by simp
qed

lemma to_double_nearest:
  assumes "to_double q = Finite r"
  shows "\<exists>n e. r = of_int n * pow2 (e - 52) \<and> \<bar>n\<bar> \<le> 2 ^ 53
     \<and> - 1022 \<le> e \<and> e \<le> 1023 \<and> \<bar>r - q\<bar> \<le> pow2 (e - 52) / 2"
proof (cases "q = 0")
  case True
  with assms have "r = 0" by (simp add: to_double_def)
  with True have "r = of_int 0 * pow2 (0 - 52) \<and> \<bar>0::int\<bar> \<le> 2 ^ 53
     \<and> - 1022 \<le> (0::int) \<and> (0::int) \<le> 1023 \<and> \<bar>r - q\<bar> \<le> pow2 (0 - 52) / 2"
    using pow2_pos [of "0 - 52"] by simp
  then show ?thesis by blast
next
  case False
  define e where "e = max (ilog2 \<bar>q\<bar>) (- 1022)"
  define u where "u = pow2 (e - 52)"
  define n where "n = round_half_even (q / u)"
  have u: "0 < u" unfolding u_def by (rule pow2_pos)
  from assms False have ov: "\<not> (1023 < e \<or> (e = 1023 \<and> 2 ^ 53 \<le> \<bar>n\<bar>))"
    and r: "r = of_int n * u"
    by (auto simp: to_double_def Let_def e_def u_def n_def split: if_splits)
  from False have "0 < \<bar>q\<bar>" by simp
  from ilog2_bounds [OF this] have "\<bar>q\<bar> < pow2 (ilog2 \<bar>q\<bar> + 1)" by simp
  also have "\<dots> \<le> pow2 (e + 1)" by (rule pow2_mono) (simp add: e_def)
  finally have "\<bar>q\<bar> / u < pow2 (e + 1) / u" using u by (simp add: divide_strict_right_mono)
  then have x: "\<bar>q / u\<bar> < 2 ^ 53" using u by (simp add: u_def pow2_add_53)
  have c: "\<bar>of_int n - q / u\<bar> \<le> 1 / 2" unfolding n_def by (rule round_half_even_close)
  from x c have "\<bar>(of_int n :: rat)\<bar> < 2 ^ 53 + 1 / 2" by linarith
  then have "\<bar>(of_int n :: rat)\<bar> < of_int (2 ^ 53 + 1)" by simp
  then have "(of_int \<bar>n\<bar> :: rat) < of_int (2 ^ 53 + 1)" by simp
  then have "\<bar>n\<bar> < 2 ^ 53 + 1" by (simp only: of_int_less_iff)
  then have n: "\<bar>n\<bar> \<le> 2 ^ 53" by simp
  have "r - q = (of_int n - q / u) * u" using u by (simp add: r field_simps)
  then have "\<bar>r - q\<bar> = \<bar>of_int n - q / u\<bar> * u" using u by (simp add: abs_mult)
  also have "\<dots> \<le> 1 / 2 * u" using c u by (intro mult_right_mono) simp_all
  finally have d: "\<bar>r - q\<bar> \<le> u / 2" by simp
  have "- 1022 \<le> e" by (simp add: e_def)
  moreover from ov have "e \<le> 1023" by simp
  ultimately show ?thesis using r n d unfolding u_def by blast
qed

text \<open>
  The rounding of the float model on well-known values: \<open>0.1 + 0.2\<close> is not
  \<open>0.3\<close>, \<open>round(2.675, 2)\<close> is \<open>2.67\<close>, and the tie \<open>round(0.125, 2)\<close> goes to the
  even digit.
\<close>

lemma binary64_examples:
  "float_add (py_float (1 / 10)) (py_float (2 / 10)) \<noteq> py_float (3 / 10)"
  "py_round (py_float (2675 / 1000)) 2 = py_float (267 / 100)"
  "py_round (py_float (125 / 1000)) 2 = py_float (12 / 100)"
  by code_simp+

text \<open>The float computations of the recommendation for the bids 0.5 and 1.2.\<close>

lemma cpc_example_avg:
  "py_round (float_truediv (float_add (py_float (5 / 10)) (py_float (12 / 10)))
     (float_of_int 2)) 2 = py_float (85 / 100)"
  by code_simp

lemma cpc_example_cpa:
  "py_round (float_truediv (float_truediv (float_add (py_float (5 / 10)) (py_float (12 / 10)))
     (float_of_int 2)) (py_float (2 / 100))) 2 = py_float (425 / 10)"
  by code_simp


section \<open>Properties of the keyword service\<close>

subsection \<open>The mock generator\<close>

lemma fold_append_concat:
  "fold (\<lambda>x acc. acc @ f x) xs acc = acc @ concat (map f xs)"
  by (induction xs arbitrary: acc) auto

lemma fold_snoc_map:
  "fold (\<lambda>x acc. acc @ [f x]) xs acc = acc @ map f xs"
  by (induction xs arbitrary: acc) auto

lemma get_keyword_ideas_concat:
  "get_keyword_ideas_from_google seeds =
     concat (map (\<lambda>(i, seed). map (mock_keyword i seed) suffixes)
                 (enumerate 0 (take 10 seeds)))"
proof -
  have "(\<lambda>(i, seed). fold (\<lambda>suffix mock_keywords.
            mock_keywords @ [mock_keyword i seed suffix]) suffixes)
      = (\<lambda>x acc. acc @ (case x of (i, seed) \<Rightarrow> map (mock_keyword i seed) suffixes))"
    by (intro ext) (simp add: fold_snoc_map case_prod_unfold)
  then have "get_keyword_ideas_from_google seeds =
      fold (\<lambda>x acc. acc @ (case x of (i, seed) \<Rightarrow> map (mock_keyword i seed) suffixes))
        (enumerate 0 (take 10 seeds)) []"
    unfolding get_keyword_ideas_from_google_def by simp
  then show ?thesis by (simp add: fold_append_concat)
qed

lemma length_get_keyword_ideas:
  "length (get_keyword_ideas_from_google seeds) = 6 * min (length seeds) 10"
proof -
  have "length (concat (map (\<lambda>(i, seed). map (mock_keyword i seed) suffixes) xs))
      = 6 * length xs" for xs :: "(nat \<times> string) list"
    by (induction xs) (auto simp: suffixes_def)
  then show ?thesis by (simp add: get_keyword_ideas_concat)
qed

lemma base_volumes_ge: "i < 10 \<Longrightarrow> 600 \<le> base_volumes ! i"
proof -
  assume "i < 10"
  then have "i < length base_volumes" by (simp add: base_volumes_def)
  then have "base_volumes ! i \<in> set base_volumes" by (rule nth_mem)
  moreover have "\<forall>v\<in>set base_volumes. 600 \<le> v" by (simp add: base_volumes_def)
  ultimately show ?thesis by blast
qed

lemma mock_keyword_volume: "600 \<le> search_volume (mock_keyword i seed suffix)"
proof -
  have "i mod length base_volumes < 10" by (simp add: base_volumes_def)
  then have "600 \<le> base_volumes ! (i mod length base_volumes)" by (rule base_volumes_ge)
  then show ?thesis by (simp add: mock_keyword_def)
qed

lemma get_keyword_ideas_volume:
  "kw \<in> set (get_keyword_ideas_from_google seeds) \<Longrightarrow> 600 \<le> search_volume kw"
  by (auto simp: get_keyword_ideas_concat mock_keyword_volume)

lemma filter_ideas_id:
  "filter (\<lambda>kw. 500 \<le> search_volume kw) (get_keyword_ideas_from_google seeds)
     = get_keyword_ideas_from_google seeds"
proof -
  have "\<forall>kw\<in>set (get_keyword_ideas_from_google seeds). 500 \<le> search_volume kw"
    using get_keyword_ideas_volume by fastforce
  then show ?thesis by (simp only: filter_True)
qed

subsection \<open>The bucketing loop\<close>

lemma group_keyword_bucket:
  "bucket_of b (group_keyword kw g) = bucket_of b g @ (if spec_bucket kw = b then [kw] else [])"
  by (cases b)
     (simp_all add: group_keyword_def spec_bucket_def spec_word_count_def spec_has_token_def
        Let_def)

lemma fold_group_keyword_bucket:
  "bucket_of b (fold group_keyword kws g)
     = bucket_of b g @ filter (\<lambda>kw. spec_bucket kw = b) kws"
  by (induction kws arbitrary: g) (simp_all add: group_keyword_bucket)

lemma group_keywords_bucket:
  "bucket_of b (group_keywords_into_ad_groups kws) = filter (\<lambda>kw. spec_bucket kw = b) kws"
  by (cases b)
     (simp_all add: group_keywords_into_ad_groups_def fold_group_keyword_bucket
        empty_ad_groups_def)

lemma mset_bucket_partition:
  "mset (filter (\<lambda>kw. spec_bucket kw = BrandTerms) kws)
   + mset (filter (\<lambda>kw. spec_bucket kw = CategoryTerms) kws)
   + mset (filter (\<lambda>kw. spec_bucket kw = CompetitorTerms) kws)
   + mset (filter (\<lambda>kw. spec_bucket kw = LocationTerms) kws)
   + mset (filter (\<lambda>kw. spec_bucket kw = LongTailTerms) kws) = mset kws"
proof (induction kws)
  case Nil
  then show ?case by simp
next
  case (Cons kw kws)
  then show ?case by (cases "spec_bucket kw") simp_all
qed

lemma bucket_samples_grouped:
  "group_keywords_into_ad_groups bucket_samples =
     \<lparr>brand_terms = [sample_record ''running shoes'' 900 ''HIGH''],
      category_terms = [sample_record ''running shoes'' 900 ''LOW''],
      competitor_terms = [sample_record ''dvs shoes'' 900 ''HIGH''],
      location_terms = [sample_record ''capacity planning'' 900 ''HIGH''],
      long_tail_terms = [sample_record ''Best Running Shoes'' 900 ''HIGH'']\<rparr>"
  by code_simp

subsection \<open>The pipeline of the service\<close>

lemma discover_keywords_Inr:
  assumes "discover_keywords exc_str extract ideas brand_url competitor_url = Inr d"
  shows "\<exists>generated. ideas (seed_keywords_used d) = Inr generated
     \<and> keyword_records d = filter (\<lambda>kw. 500 \<le> search_volume kw) generated
     \<and> total_keywords d = length (keyword_records d)
     \<and> ad_groups d = group_keywords_into_ad_groups (keyword_records d)"
  using assms
  by (auto simp: discover_keywords_def discover_keywords_try_def Let_def
      split: sum.splits if_splits)

lemma service_discover_keywords_result:
  "service_discover_keywords exc_str scrape brand_url competitor_url =
     Inr \<lparr>total_keywords =
            length (get_keyword_ideas_from_google (service_seeds scrape brand_url competitor_url)),
          keyword_records =
            get_keyword_ideas_from_google (service_seeds scrape brand_url competitor_url),
          ad_groups = group_keywords_into_ad_groups
            (get_keyword_ideas_from_google (service_seeds scrape brand_url competitor_url)),
          seed_keywords_used = service_seeds scrape brand_url competitor_url\<rparr>"
  by (simp add: service_discover_keywords_def discover_keywords_def discover_keywords_try_def
      service_seeds_def filter_ideas_id Let_def)

section \<open>Properties of the endpoint and the calculators\<close>

lemma fold_recommend:
  "fold (\<lambda>kw recommendations. recommendations(keyword kw \<mapsto> keyword_recommendation kw)) kws m t
   = (case find (\<lambda>kw. keyword kw = t) (rev kws) of
        None \<Rightarrow> m t
      | Some kw \<Rightarrow> Some (keyword_recommendation kw))"
  by (induction kws rule: rev_induct) simp_all

text \<open>
  The dictionary of recommendations holds, under each keyword text, the entry of the
  last record of the list with that text.
\<close>

lemma calculate_cpc_recommendations_lookup:
  "calculate_cpc_recommendations kws total_budget t
     = map_option keyword_recommendation (find (\<lambda>kw. keyword kw = t) (rev kws))"
  unfolding calculate_cpc_recommendations_def fold_recommend
  by (simp split: option.split)

lemma find_append_none: "find P xs = None \<Longrightarrow> find P (xs @ ys) = find P ys"
  by (induction xs) (auto split: if_splits)

lemma find_rev_last:
  assumes "keyword kw \<notin> set (map keyword after)"
  shows "find (\<lambda>k. keyword k = keyword kw) (rev (before @ kw # after)) = Some kw"
proof -
  have "\<forall>x\<in>set after. keyword x \<noteq> keyword kw"
  proof
    fix x assume "x \<in> set after"
    then have "keyword x \<in> set (map keyword after)" by simp
    with assms show "keyword x \<noteq> keyword kw" by metis
  qed
  then have "\<not> (\<exists>x. x \<in> set (rev after) \<and> keyword x = keyword kw)"
    by auto
  then have "find (\<lambda>k. keyword k = keyword kw) (rev after) = None"
    by (simp add: find_None_iff)
  then have "find (\<lambda>k. keyword k = keyword kw) (rev after @ kw # rev before) = Some kw"
    by (simp add: find_append_none)
  then show ?thesis by simp
qed

lemma cpc_recommendation_entry:
  assumes "keyword kw \<notin> set (map keyword after)"
  shows "calculate_cpc_recommendations (before @ kw # after) total_budget (keyword kw)
     = Some (keyword_recommendation kw)"
  by (simp only: calculate_cpc_recommendations_lookup find_rev_last [OF assms] option.map)

lemma analyze_sem_campaign_ok:
  assumes "discover (brand_website request) (competitor_website request) = Inr keyword_data"
  shows "analyze_sem_campaign exc_str discover request =
     Inr \<lparr>total_keywords = total_keywords keyword_data,
          keyword_records = keyword_records keyword_data,
          ad_groups = ad_groups keyword_data,
          seed_keywords_used = seed_keywords_used keyword_data,
          campaign_suggestions =
            calculate_campaign_suggestions keyword_data
              (shopping_budget request) (search_budget request) (pmax_budget request),
          cpc_recommendations =
            calculate_cpc_recommendations (keyword_records keyword_data)
              (shopping_budget request + search_budget request + pmax_budget request)\<rparr>"
  using assms by (simp add: analyze_sem_campaign_def analyze_sem_campaign_try_def Let_def)


lemma service_analyze_seeds:
  "map_sum id seed_keywords_used (service_analyze_sem_campaign exc_str scrape request)
     = Inr (service_seeds scrape (brand_website request) (competitor_website request))"
  unfolding service_analyze_sem_campaign_def
  by (simp add: analyze_sem_campaign_ok [OF service_discover_keywords_result])

section \<open>The claims\<close>



text \<open>
  C2. For the seed list \<open>["shoes"]\<close> the mock generator returns the six variants
  \<open>shoes\<close>, \<open>shoes online\<close>, \<open>shoes shop\<close>, \<open>shoes buy\<close>, \<open>shoes best\<close>,
  \<open>shoes reviews\<close>, each with search volume 1000: the index of the formula is the
  index of the seed, which is 0 for all six.
\<close>

theorem shoes_variants:
  "map keyword (get_keyword_ideas_from_google [''shoes''])
     = [''shoes'', ''shoes online'', ''shoes shop'', ''shoes buy'', ''shoes best'',
        ''shoes reviews'']
   \<and> map search_volume (get_keyword_ideas_from_google [''shoes''])
     = [1000, 1000, 1000, 1000, 1000, 1000]"
  by code_simp

text \<open>The volumes are not 1000 followed by five times 1100.\<close>

theorem shoes_volumes_counterexample:
  "map search_volume (get_keyword_ideas_from_google [''shoes''])
     \<noteq> [1000, 1100, 1100, 1100, 1100, 1100]"
  by code_simp

text \<open>
  C3. Bucketing is total and exclusive: the sizes of the five buckets add up to the
  number of keywords, the buckets together hold the input records with their
  multiplicities, and a record lies in exactly one of the five buckets when it is in
  the input and in none otherwise.
\<close>

theorem bucketing_total_exclusive:
  "length (brand_terms (group_keywords_into_ad_groups kws))
   + length (category_terms (group_keywords_into_ad_groups kws))
   + length (competitor_terms (group_keywords_into_ad_groups kws))
   + length (location_terms (group_keywords_into_ad_groups kws))
   + length (long_tail_terms (group_keywords_into_ad_groups kws)) = length kws
   \<and> mset (brand_terms (group_keywords_into_ad_groups kws))
     + mset (category_terms (group_keywords_into_ad_groups kws))
     + mset (competitor_terms (group_keywords_into_ad_groups kws))
     + mset (location_terms (group_keywords_into_ad_groups kws))
     + mset (long_tail_terms (group_keywords_into_ad_groups kws)) = mset kws
   \<and> length (filter (\<lambda>b. kw \<in> set (bucket_of b (group_keywords_into_ad_groups kws)))
         [BrandTerms, CategoryTerms, CompetitorTerms, LocationTerms, LongTailTerms])
     = (if kw \<in> set kws then 1 else 0)"
proof -
  let ?g = "group_keywords_into_ad_groups kws"
  have b: "brand_terms ?g = filter (\<lambda>kw. spec_bucket kw = BrandTerms) kws"
    using group_keywords_bucket [of BrandTerms kws] by simp
  have c: "category_terms ?g = filter (\<lambda>kw. spec_bucket kw = CategoryTerms) kws"
    using group_keywords_bucket [of CategoryTerms kws] by simp
  have d: "competitor_terms ?g = filter (\<lambda>kw. spec_bucket kw = CompetitorTerms) kws"
    using group_keywords_bucket [of CompetitorTerms kws] by simp
  have e: "location_terms ?g = filter (\<lambda>kw. spec_bucket kw = LocationTerms) kws"
    using group_keywords_bucket [of LocationTerms kws] by simp
  have f: "long_tail_terms ?g = filter (\<lambda>kw. spec_bucket kw = LongTailTerms) kws"
    using group_keywords_bucket [of LongTailTerms kws] by simp
  have m: "mset (brand_terms ?g) + mset (category_terms ?g) + mset (competitor_terms ?g)
      + mset (location_terms ?g) + mset (long_tail_terms ?g) = mset kws"
    unfolding b c d e f by (rule mset_bucket_partition)
  have "size (mset (brand_terms ?g) + mset (category_terms ?g) + mset (competitor_terms ?g)
      + mset (location_terms ?g) + mset (long_tail_terms ?g)) = size (mset kws)"
    by (simp only: m)
  then have l: "length (brand_terms ?g) + length (category_terms ?g)
      + length (competitor_terms ?g) + length (location_terms ?g)
      + length (long_tail_terms ?g) = length kws"
    by simp
  have x: "length (filter (\<lambda>b. kw \<in> set (bucket_of b ?g))
         [BrandTerms, CategoryTerms, CompetitorTerms, LocationTerms, LongTailTerms])
     = (if kw \<in> set kws then 1 else 0)"
    by (cases "spec_bucket kw") (simp_all add: group_keywords_bucket)
  from l m x show ?thesis by blast
qed

theorem bucketing_total_exclusive_witness:
  "length (brand_terms (group_keywords_into_ad_groups bucket_samples))
   + length (category_terms (group_keywords_into_ad_groups bucket_samples))
   + length (competitor_terms (group_keywords_into_ad_groups bucket_samples))
   + length (location_terms (group_keywords_into_ad_groups bucket_samples))
   + length (long_tail_terms (group_keywords_into_ad_groups bucket_samples)) = 5
   \<and> length (filter (\<lambda>b. sample_record ''dvs shoes'' 900 ''HIGH''
                \<in> set (bucket_of b (group_keywords_into_ad_groups bucket_samples)))
         [BrandTerms, CategoryTerms, CompetitorTerms, LocationTerms, LongTailTerms]) = 1"
  using bucketing_total_exclusive [of bucket_samples "sample_record ''dvs shoes'' 900 ''HIGH''"]
  by (simp add: bucket_samples_def)

text \<open>
  C4. Each bucket holds, in the order of the input, the keywords whose first matching
  rule of the specification's priority list is the rule of that bucket: three or more
  words, then a comparison token, then a locality token, then competition \<open>HIGH\<close>,
  else the category bucket.
\<close>

theorem bucketing_first_match_priority:
  "long_tail_terms (group_keywords_into_ad_groups kws)
     = filter (\<lambda>kw. spec_bucket kw = LongTailTerms) kws
   \<and> competitor_terms (group_keywords_into_ad_groups kws)
     = filter (\<lambda>kw. spec_bucket kw = CompetitorTerms) kws
   \<and> location_terms (group_keywords_into_ad_groups kws)
     = filter (\<lambda>kw. spec_bucket kw = LocationTerms) kws
   \<and> brand_terms (group_keywords_into_ad_groups kws)
     = filter (\<lambda>kw. spec_bucket kw = BrandTerms) kws
   \<and> category_terms (group_keywords_into_ad_groups kws)
     = filter (\<lambda>kw. spec_bucket kw = CategoryTerms) kws"
  using group_keywords_bucket [of LongTailTerms kws]
    group_keywords_bucket [of CompetitorTerms kws]
    group_keywords_bucket [of LocationTerms kws]
    group_keywords_bucket [of BrandTerms kws]
    group_keywords_bucket [of CategoryTerms kws]
  by simp

theorem bucketing_first_match_priority_witness:
  "filter (\<lambda>kw. spec_bucket kw = LongTailTerms) bucket_samples
     = [sample_record ''Best Running Shoes'' 900 ''HIGH'']
   \<and> filter (\<lambda>kw. spec_bucket kw = CompetitorTerms) bucket_samples
     = [sample_record ''dvs shoes'' 900 ''HIGH'']
   \<and> filter (\<lambda>kw. spec_bucket kw = LocationTerms) bucket_samples
     = [sample_record ''capacity planning'' 900 ''HIGH'']
   \<and> filter (\<lambda>kw. spec_bucket kw = BrandTerms) bucket_samples
     = [sample_record ''running shoes'' 900 ''HIGH'']
   \<and> filter (\<lambda>kw. spec_bucket kw = CategoryTerms) bucket_samples
     = [sample_record ''running shoes'' 900 ''LOW'']"
  using bucketing_first_match_priority [of bucket_samples]
  by (simp add: bucket_samples_grouped)

text \<open>
  C5, as amended. For every keyword record whose keyword text no later record of the
  list repeats, the entry of the result under that text has \<open>suggested_cpc\<close> equal to
  the float average of \<open>cpc_low\<close> and \<open>cpc_high\<close> rounded to two decimals, and
  \<open>target_cpa\<close> equal to that average, not yet rounded, divided by 0.02 and then
  rounded to two decimals. For the bids 0.5 and 1.2 these are 0.85 and 42.5.
\<close>

theorem cpc_values_last_record:
  assumes "keyword kw \<notin> set (map keyword after)"
  shows
   "map_option suggested_cpc
      (calculate_cpc_recommendations (before @ kw # after) total_budget (keyword kw))
      = Some (py_round (float_truediv (float_add (cpc_low kw) (cpc_high kw))
                (float_of_int 2)) 2)
    \<and> map_option target_cpa
      (calculate_cpc_recommendations (before @ kw # after) total_budget (keyword kw))
      = Some (py_round (float_truediv (float_truediv (float_add (cpc_low kw) (cpc_high kw))
                (float_of_int 2)) (py_float (2 / 100))) 2)
    \<and> map_option suggested_cpc
      (calculate_cpc_recommendations
         (before @ kw\<lparr>cpc_low := py_float (5 / 10), cpc_high := py_float (12 / 10)\<rparr> # after)
         total_budget (keyword kw))
      = Some (py_float (85 / 100))
    \<and> map_option target_cpa
      (calculate_cpc_recommendations
         (before @ kw\<lparr>cpc_low := py_float (5 / 10), cpc_high := py_float (12 / 10)\<rparr> # after)
         total_budget (keyword kw))
      = Some (py_float (425 / 10))"
proof -
  let ?kw = "kw\<lparr>cpc_low := py_float (5 / 10), cpc_high := py_float (12 / 10)\<rparr>"
  have a: "calculate_cpc_recommendations (before @ kw # after) total_budget (keyword kw)
      = Some (keyword_recommendation kw)"
    using assms by (rule cpc_recommendation_entry)
  have "keyword ?kw \<notin> set (map keyword after)"
    using assms by simp
  then have "calculate_cpc_recommendations (before @ ?kw # after) total_budget (keyword ?kw)
      = Some (keyword_recommendation ?kw)"
    by (rule cpc_recommendation_entry)
  then have b: "calculate_cpc_recommendations (before @ ?kw # after) total_budget (keyword kw)
      = Some (keyword_recommendation ?kw)"
    by simp
  have c: "suggested_cpc (keyword_recommendation ?kw) = py_float (85 / 100)"
    by (simp add: keyword_recommendation_def Let_def cpc_example_avg [simplified])
  have d: "target_cpa (keyword_recommendation ?kw) = py_float (425 / 10)"
    by (simp add: keyword_recommendation_def Let_def conversion_rate_def
        cpc_example_cpa [simplified])
  show ?thesis
    unfolding a b using c d
    by (simp add: keyword_recommendation_def Let_def conversion_rate_def)
qed

theorem cpc_values_last_record_witness:
  "keyword first_marketing \<notin> set (map keyword [penny_record])
   \<and> map_option suggested_cpc
       (calculate_cpc_recommendations [second_marketing, first_marketing, penny_record] 600
          ''digital marketing'')
     = Some (py_float (85 / 100))
   \<and> map_option target_cpa
       (calculate_cpc_recommendations [second_marketing, first_marketing, penny_record] 600
          ''digital marketing'')
     = Some (py_float (425 / 10))"
proof -
  have h: "keyword first_marketing \<notin> set (map keyword [penny_record])"
    by (simp add: first_marketing_def penny_record_def)
  have e: "first_marketing\<lparr>cpc_low := py_float (5 / 10), cpc_high := py_float (12 / 10)\<rparr>
      = first_marketing"
    by (simp add: first_marketing_def)
  have k: "keyword first_marketing = ''digital marketing''"
    by (simp add: first_marketing_def)
  note t = cpc_values_last_record [OF h, of "[second_marketing]" 600]
  from t have "map_option suggested_cpc
       (calculate_cpc_recommendations
          ([second_marketing]
           @ first_marketing\<lparr>cpc_low := py_float (5 / 10), cpc_high := py_float (12 / 10)\<rparr>
           # [penny_record]) 600 (keyword first_marketing))
     = Some (py_float (85 / 100))"
    by (rule conjunct1 [OF conjunct2 [OF conjunct2]])
  then have a: "map_option suggested_cpc
       (calculate_cpc_recommendations [second_marketing, first_marketing, penny_record] 600
          ''digital marketing'') = Some (py_float (85 / 100))"
    by (simp only: e k append_Cons append_Nil)
  from t have "map_option target_cpa
       (calculate_cpc_recommendations
          ([second_marketing]
           @ first_marketing\<lparr>cpc_low := py_float (5 / 10), cpc_high := py_float (12 / 10)\<rparr>
           # [penny_record]) 600 (keyword first_marketing))
     = Some (py_float (425 / 10))"
    by (rule conjunct2 [OF conjunct2 [OF conjunct2]])
  then have b: "map_option target_cpa
       (calculate_cpc_recommendations [second_marketing, first_marketing, penny_record] 600
          ''digital marketing'') = Some (py_float (425 / 10))"
    by (simp only: e k append_Cons append_Nil)
  from h a b show ?thesis by (intro conjI)
qed

text \<open>
  The claim as stated fails in two ways. Of two records with one keyword text the
  result keeps the entry of the later one, so the first record, with the bids 0.5 and
  1.2, finds 2.25 and not 0.85 under its text. And the target cost is computed from
  the average before rounding: for the bids 0.01 and 0.02 the suggested bid is 0.01,
  the target cost is 0.75, and the suggested bid divided by 0.02 is 0.5.
\<close>

theorem cpc_values_counterexample:
  "keyword first_marketing = keyword second_marketing
   \<and> map_option suggested_cpc
       (calculate_cpc_recommendations [first_marketing, second_marketing] 600
          (keyword first_marketing))
     = Some (py_float (225 / 100))
   \<and> py_round (float_truediv (float_add (cpc_low first_marketing) (cpc_high first_marketing))
        (float_of_int 2)) 2 = py_float (85 / 100)
   \<and> py_float (225 / 100) \<noteq> py_float (85 / 100)
   \<and> map_option suggested_cpc
       (calculate_cpc_recommendations [penny_record] 600 (keyword penny_record))
     = Some (py_float (1 / 100))
   \<and> map_option target_cpa
       (calculate_cpc_recommendations [penny_record] 600 (keyword penny_record))
     = Some (py_float (75 / 100))
   \<and> py_round (float_truediv (py_float (1 / 100)) (py_float (2 / 100))) 2 = py_float (5 / 10)
   \<and> py_float (75 / 100) \<noteq> py_float (5 / 10)"
  by code_simp

text \<open>
  C6, as amended. For every keyword record whose keyword text no later record of the
  list repeats, the entry of the result under that text has priority \<open>HIGH\<close> when the
  search volume exceeds 10000 and the competition is \<open>MEDIUM\<close>, and priority
  \<open>MEDIUM\<close> otherwise. Volume 12000 with competition \<open>MEDIUM\<close> gives \<open>HIGH\<close>, volume
  12000 with competition \<open>HIGH\<close> gives \<open>MEDIUM\<close>.
\<close>

theorem priority_last_record:
  assumes "keyword kw \<notin> set (map keyword after)"
  shows
   "map_option priority
      (calculate_cpc_recommendations (before @ kw # after) total_budget (keyword kw))
      = Some (if 10000 < search_volume kw \<and> competition kw = ''MEDIUM''
              then ''HIGH'' else ''MEDIUM'')
    \<and> map_option priority
      (calculate_cpc_recommendations
         (before @ kw\<lparr>search_volume := 12000, competition := ''MEDIUM''\<rparr> # after)
         total_budget (keyword kw))
      = Some ''HIGH''
    \<and> map_option priority
      (calculate_cpc_recommendations
         (before @ kw\<lparr>search_volume := 12000, competition := ''HIGH''\<rparr> # after)
         total_budget (keyword kw))
      = Some ''MEDIUM''"
proof -
  let ?m = "kw\<lparr>search_volume := 12000, competition := ''MEDIUM''\<rparr>"
  let ?h = "kw\<lparr>search_volume := 12000, competition := ''HIGH''\<rparr>"
  have a: "calculate_cpc_recommendations (before @ kw # after) total_budget (keyword kw)
      = Some (keyword_recommendation kw)"
    using assms by (rule cpc_recommendation_entry)
  have "keyword ?m \<notin> set (map keyword after)"
    using assms by simp
  then have "calculate_cpc_recommendations (before @ ?m # after) total_budget (keyword ?m)
      = Some (keyword_recommendation ?m)"
    by (rule cpc_recommendation_entry)
  then have b: "calculate_cpc_recommendations (before @ ?m # after) total_budget (keyword kw)
      = Some (keyword_recommendation ?m)"
    by simp
  have "keyword ?h \<notin> set (map keyword after)"
    using assms by simp
  then have "calculate_cpc_recommendations (before @ ?h # after) total_budget (keyword ?h)
      = Some (keyword_recommendation ?h)"
    by (rule cpc_recommendation_entry)
  then have c: "calculate_cpc_recommendations (before @ ?h # after) total_budget (keyword kw)
      = Some (keyword_recommendation ?h)"
    by simp
  show ?thesis
    unfolding a b c by (simp add: keyword_recommendation_def Let_def)
qed

theorem priority_last_record_witness:
  "keyword (sample_record ''running shoes'' 12000 ''MEDIUM'')
     \<notin> set (map keyword [sample_record ''trail shoes'' 12000 ''HIGH''])
   \<and> map_option priority
       (calculate_cpc_recommendations
          [sample_record ''running shoes'' 12000 ''MEDIUM'',
           sample_record ''trail shoes'' 12000 ''HIGH''] 600 ''running shoes'')
     = Some ''HIGH''"
proof -
  have h: "keyword (sample_record ''running shoes'' 12000 ''MEDIUM'')
     \<notin> set (map keyword [sample_record ''trail shoes'' 12000 ''HIGH''])"
    by (simp add: sample_record_def)
  show ?thesis
    using h priority_last_record [OF h, of "[]" 600]
    by (simp add: sample_record_def)
qed

text \<open>
  The claim as stated fails for a record whose text a later record repeats: the first
  record has volume 12000 and competition \<open>MEDIUM\<close>, and the entry under its text has
  priority \<open>MEDIUM\<close>.
\<close>

theorem priority_counterexample:
  "keyword (sample_record ''running shoes'' 12000 ''MEDIUM'') = ''running shoes''
   \<and> 10000 < search_volume (sample_record ''running shoes'' 12000 ''MEDIUM'')
   \<and> competition (sample_record ''running shoes'' 12000 ''MEDIUM'') = ''MEDIUM''
   \<and> map_option priority
       (calculate_cpc_recommendations
          [sample_record ''running shoes'' 12000 ''MEDIUM'',
           sample_record ''running shoes'' 12000 ''HIGH''] 600 ''running shoes'')
     = Some ''MEDIUM''"
  by (simp add: calculate_cpc_recommendations_lookup sample_record_def
      keyword_recommendation_def Let_def)

text \<open>
  C7. Whenever the seed extraction and the keyword provider succeed, for every list
  the provider generates, \<open>discover_keywords\<close> returns a result (not the error
  dictionary), and the keyword list of that result is exactly the generated list
  restricted to the records with a search volume of at least 500, in the same order,
  with \<open>total_keywords\<close> its length; so every record returned has a search volume of
  at least 500, and every generated record below 500 is left out.
\<close>

theorem discover_keywords_volume_filter:
  assumes "extract brand_url = Inr brand_seeds"
    and "(if truthy competitor_url then extract (the competitor_url) else Inr []) = Inr comp_seeds"
    and "ideas (brand_seeds @ comp_seeds) = Inr generated"
  shows "discover_keywords exc_str extract ideas brand_url competitor_url
       = Inr \<lparr>total_keywords = length (filter (\<lambda>kw. 500 \<le> search_volume kw) generated),
              keyword_records = filter (\<lambda>kw. 500 \<le> search_volume kw) generated,
              ad_groups = group_keywords_into_ad_groups
                (filter (\<lambda>kw. 500 \<le> search_volume kw) generated),
              seed_keywords_used = brand_seeds @ comp_seeds\<rparr>
     \<and> (\<forall>kw\<in>set (filter (\<lambda>kw. 500 \<le> search_volume kw) generated). 500 \<le> search_volume kw)"
proof (cases "truthy competitor_url")
  case True
  with assms(2) have c: "extract (the competitor_url) = Inr comp_seeds" by simp
  show ?thesis
    by (simp add: discover_keywords_def discover_keywords_try_def Let_def assms(1) assms(3) c True)
next
  case False
  with assms(2) have c: "comp_seeds = []" by simp
  from assms(3) c have i: "ideas brand_seeds = Inr generated" by simp
  show ?thesis
    by (simp add: discover_keywords_def discover_keywords_try_def Let_def assms(1) i c False)
qed

theorem discover_keywords_volume_filter_witness:
  "sample_extract ''https://brand.invalid'' = Inr [''shoes'']
   \<and> \<not> truthy (None :: string option)
   \<and> sample_ideas [''shoes''] = Inr sample_ideas_list
   \<and> map search_volume sample_ideas_list = [499, 500, 0, 12000]
   \<and> discover_keywords starlette_str sample_extract sample_ideas ''https://brand.invalid'' None
     = Inr sample_discovery
   \<and> map search_volume (keyword_records sample_discovery) = [500, 12000]
   \<and> total_keywords sample_discovery = 2"
proof -
  have a1: "sample_extract ''https://brand.invalid'' = Inr [''shoes'']"
    by (simp add: sample_extract_def)
  have a0: "\<not> truthy (None :: string option)"
    by simp
  have a2: "(if truthy (None :: string option) then sample_extract (the None) else Inr [])
      = Inr []"
    by simp
  have a3: "sample_ideas ([''shoes''] @ []) = Inr sample_ideas_list"
    by (simp add: sample_ideas_def)
  have a3': "sample_ideas [''shoes''] = Inr sample_ideas_list"
    by (simp add: sample_ideas_def)
  have n: "length (filter (\<lambda>kw. 500 \<le> search_volume kw) sample_ideas_list) = 2"
    by (simp add: sample_ideas_list_def)
  have e: "\<lparr>total_keywords = length (filter (\<lambda>kw. 500 \<le> search_volume kw) sample_ideas_list),
            keyword_records = filter (\<lambda>kw. 500 \<le> search_volume kw) sample_ideas_list,
            ad_groups = group_keywords_into_ad_groups
              (filter (\<lambda>kw. 500 \<le> search_volume kw) sample_ideas_list),
            seed_keywords_used = [''shoes''] @ []\<rparr> = sample_discovery"
    unfolding sample_discovery_def by (simp add: n)
  have d: "discover_keywords starlette_str sample_extract sample_ideas
      ''https://brand.invalid'' None = Inr sample_discovery"
    using discover_keywords_volume_filter
      [of sample_extract "''https://brand.invalid''" "[''shoes'']" None "[]" sample_ideas
         sample_ideas_list starlette_str, OF a1 a2 a3]
    unfolding e by (rule conjunct1)
  have m: "map search_volume sample_ideas_list = [499, 500, 0, 12000]"
    by (simp add: sample_ideas_list_def)
  have v: "map search_volume (keyword_records sample_discovery) = [500, 12000]"
    by (simp add: sample_discovery_def sample_ideas_list_def)
  have t: "total_keywords sample_discovery = 2"
    by (simp add: sample_discovery_def n)
  from a1 a0 a3' m d v t show ?thesis by (intro conjI)
qed

text \<open>
  C8, as amended. When the fetch or parse of a URL fails, \<open>extract_seed_keywords\<close>
  returns the four fallback phrases. A request whose brand website fails is answered
  with status 200, and \<open>seed_keywords_used\<close> is the fallback list followed by the
  seeds of the competitor website when one is given; without a competitor website it
  is the fallback list.
\<close>

theorem fallback_on_unreachable_brand:
  assumes "scrape (brand_website request) = Inl e"
  shows "extract_seed_keywords scrape (brand_website request) = fallback_seeds
     \<and> map_sum id seed_keywords_used (service_analyze_sem_campaign exc_str scrape request)
       = Inr (fallback_seeds
              @ (if truthy (competitor_website request)
                 then extract_seed_keywords scrape (the (competitor_website request))
                 else []))
     \<and> (\<not> truthy (competitor_website request) \<longrightarrow>
         map_sum id seed_keywords_used (service_analyze_sem_campaign exc_str scrape request)
           = Inr fallback_seeds)"
proof -
  have f: "extract_seed_keywords scrape (brand_website request) = fallback_seeds"
    using assms by (simp add: extract_seed_keywords_def)
  show ?thesis
    using f by (simp add: service_analyze_seeds service_seeds_def)
qed

theorem fallback_on_unreachable_brand_witness:
  "unreachable_site (brand_website brand_only_request)
     = Inl (OtherException ''Failed to resolve host'')
   \<and> \<not> truthy (competitor_website brand_only_request)
   \<and> map_sum id seed_keywords_used
       (service_analyze_sem_campaign starlette_str unreachable_site brand_only_request)
     = Inr [''digital marketing'', ''online services'', ''web solutions'',
            ''business consulting'']"
proof -
  have h: "unreachable_site (brand_website brand_only_request)
      = Inl (OtherException ''Failed to resolve host'')"
    by (simp add: unreachable_site_def)
  have t: "\<not> truthy (competitor_website brand_only_request)"
    by (simp add: brand_only_request_def)
  show ?thesis
    using h t fallback_on_unreachable_brand
      [where scrape = unreachable_site and request = brand_only_request
         and e = "OtherException ''Failed to resolve host''" and exc_str = starlette_str]
    by (simp add: fallback_seeds_def)
qed

text \<open>
  The claim as stated fails when the request names a competitor website: with both
  sites failing, \<open>seed_keywords_used\<close> is the fallback list twice.
\<close>

theorem fallback_seeds_used_counterexample:
  "unreachable_site (brand_website two_sites_request)
     = Inl (OtherException ''Failed to resolve host'')
   \<and> map_sum id seed_keywords_used
       (service_analyze_sem_campaign starlette_str unreachable_site two_sites_request)
     = Inr (fallback_seeds @ fallback_seeds)
   \<and> fallback_seeds @ fallback_seeds \<noteq> fallback_seeds"
  by (simp add: service_analyze_seeds service_seeds_def extract_seed_keywords_def
      unreachable_site_def two_sites_request_def fallback_seeds_def)

text \<open>
  C9. The result of \<open>calculate_cpc_recommendations\<close> is the same for every value of
  \<open>total_budget\<close>, and the recommendations of the endpoint (or its error) are the
  same whatever the three budgets of the request are.
\<close>

theorem total_budget_ignored:
  "calculate_cpc_recommendations kws budget = calculate_cpc_recommendations kws budget'
   \<and> map_sum id cpc_recommendations
       (analyze_sem_campaign exc_str discover
          (request\<lparr>shopping_budget := s, search_budget := q, pmax_budget := p\<rparr>))
     = map_sum id cpc_recommendations (analyze_sem_campaign exc_str discover request)"
proof -
  have a: "calculate_cpc_recommendations kws b1 = calculate_cpc_recommendations kws b2"
    for kws b1 b2
    by (simp add: calculate_cpc_recommendations_def)
  have "map_sum id cpc_recommendations
       (analyze_sem_campaign exc_str discover
          (request\<lparr>shopping_budget := s, search_budget := q, pmax_budget := p\<rparr>))
     = map_sum id cpc_recommendations (analyze_sem_campaign exc_str discover request)"
    by (cases "discover (brand_website request) (competitor_website request)")
       (simp_all add: analyze_sem_campaign_def analyze_sem_campaign_try_def Let_def
          a [of _ "s + q + p" "shopping_budget request + search_budget request
             + pmax_budget request"])
  with a show ?thesis by blast
qed

text \<open>
  C10. Every record of the mock generator has a search volume of at least 600, so the
  filter at 500 keeps all of them; the generator returns six records for each of the
  first ten seeds, and the service always returns a result whose \<open>total_keywords\<close> is
  six times the number of seeds, at most ten of them counted.
\<close>

theorem mock_volumes_pass_filter:
  "(\<forall>kw\<in>set (get_keyword_ideas_from_google seeds). 600 \<le> search_volume kw)
   \<and> filter (\<lambda>kw. 500 \<le> search_volume kw) (get_keyword_ideas_from_google seeds)
     = get_keyword_ideas_from_google seeds
   \<and> length (get_keyword_ideas_from_google seeds) = 6 * min (length seeds) 10
   \<and> (\<exists>d. service_discover_keywords exc_str scrape brand_url competitor_url = Inr d
        \<and> keyword_records d = get_keyword_ideas_from_google (seed_keywords_used d)
        \<and> total_keywords d = 6 * min (length (seed_keywords_used d)) 10)"
proof -
  have a: "\<forall>kw\<in>set (get_keyword_ideas_from_google seeds). 600 \<le> search_volume kw"
    using get_keyword_ideas_volume by blast
  have "\<exists>d. service_discover_keywords exc_str scrape brand_url competitor_url = Inr d
        \<and> keyword_records d = get_keyword_ideas_from_google (seed_keywords_used d)
        \<and> total_keywords d = 6 * min (length (seed_keywords_used d)) 10"
    by (simp add: service_discover_keywords_result length_get_keyword_ideas)
  with a show ?thesis
    by (simp add: filter_ideas_id length_get_keyword_ideas)
qed

theorem mock_volumes_pass_filter_witness:
  "length (get_keyword_ideas_from_google fallback_seeds) = 24
   \<and> map_sum id total_keywords
       (service_discover_keywords starlette_str unreachable_site ''https://brand.invalid'' None)
     = Inr 24"
proof -
  have l: "length fallback_seeds = 4" by (simp add: fallback_seeds_def)
  have s: "service_seeds unreachable_site ''https://brand.invalid'' None = fallback_seeds"
    by (simp add: service_seeds_def extract_seed_keywords_def unreachable_site_def)
  from mock_volumes_pass_filter
    [of fallback_seeds starlette_str unreachable_site "''https://brand.invalid''" None]
  obtain d where d:
    "length (get_keyword_ideas_from_google fallback_seeds) = 6 * min (length fallback_seeds) 10"
    "service_discover_keywords starlette_str unreachable_site ''https://brand.invalid'' None
       = Inr d"
    "total_keywords d = 6 * min (length (seed_keywords_used d)) 10"
    by blast
  from d(2) have "seed_keywords_used d = fallback_seeds"
    by (auto simp add: service_discover_keywords_result s)
  with d l show ?thesis by simp
qed

end
